theory Spec2Isabelle
  imports Complex_Main
begin

section \<open>Data model\<close>

text \<open>
  The engine of \<^verbatim>\<open>recommendation_system.py\<close> works on a pandas data frame loaded from
  the table \<^verbatim>\<open>udemy_courses\<close>. A frame is modelled as its list of rows, in positional
  order with the default range index (label = position), together with the set of
  optional columns it carries. The base columns of the table are always there; the
  column \<^verbatim>\<open>quality_score\<close> is tested for by the code, and the five derived columns are
  added by \<^verbatim>\<open>enhance_dataframe\<close>; \<^verbatim>\<open>build_recommender\<close> adds the column \<^verbatim>\<open>content\<close>.
  A field whose column the frame lacks is never read. A missing title or subject is the
  empty string.

  The integer columns are int64: their values lie between \<open>- 2^63\<close> and \<open>2^63 - 1\<close>, and a sum
  of two of them wraps around.

  Finite floating-point values are idealised as reals (no rounding); a value that is not
  finite (NaN or an infinity) is \<open>None\<close>.
\<close>

type_synonym float = "real option"

datatype column =
    QualityScore | BayesianPopularity | BayesianQuality
  | ConfidenceLevel | EngagementPerSubscriber | IsSuspicious | Content

record course =
  course_id :: int
  course_title :: string
  subject :: string
  price :: real
  num_subscribers :: int
  num_reviews :: int
  review_rate :: real
  popularity_score :: real
  quality_score :: real
  bayesian_popularity :: float
  bayesian_quality :: float
  confidence_level :: string
  engagement_per_subscriber :: real
  is_suspicious :: bool
  content :: string

record dataframe =
  columns :: "column set"
  rows :: "course list"

text \<open>Python exceptions the engine can meet, by the place that raises them.\<close>

datatype error =
    KeyError       \<comment> \<open>\<^verbatim>\<open>df[col]\<close> on a column the frame lacks\<close>
  | NotFound       \<comment> \<open>IndexError of \<^verbatim>\<open>.index[0]\<close>: no row carries the course id\<close>
  | OutOfBounds    \<comment> \<open>IndexError of \<^verbatim>\<open>cosine_sim[idx]\<close> or \<^verbatim>\<open>df.iloc[score_idx]\<close>\<close>
  | EmptyVocabulary \<comment> \<open>ValueError of \<^verbatim>\<open>fit_transform\<close>: no term left to build a vocabulary\<close>

section \<open>Floating-point operations used by the scorer\<close>

text \<open>
  numpy division of integers never raises: a zero divisor gives an infinity or NaN.
  A product or sum with an operand that is not finite is not finite.
\<close>

text \<open>The int64 value of an integer: addition of int64 values wraps around.\<close>

definition int64 :: "int \<Rightarrow> int" where
  "int64 x = (x + 2 ^ 63) mod 2 ^ 64 - 2 ^ 63"

definition truediv :: "int \<Rightarrow> int \<Rightarrow> float" where
  "truediv a b = (if b = 0 then None else Some (real_of_int a / real_of_int b))"

definition fmul :: "float \<Rightarrow> float \<Rightarrow> float" where
  "fmul x y = (case x of None \<Rightarrow> None | Some a \<Rightarrow> (case y of None \<Rightarrow> None | Some b \<Rightarrow> Some (a * b)))"

definition fadd :: "float \<Rightarrow> float \<Rightarrow> float" where
  "fadd x y = (case x of None \<Rightarrow> None | Some a \<Rightarrow> (case y of None \<Rightarrow> None | Some b \<Rightarrow> Some (a + b)))"

text \<open>\<^verbatim>\<open>Series.mean()\<close>: the sum over the count; NaN for an empty series.\<close>

definition mean :: "real list \<Rightarrow> float" where
  "mean xs = (if xs = [] then None else Some (sum_list xs / real (length xs)))"

section \<open>Bayesian scorer and confidence tier\<close>

datatype score_col = PopularityScore | QualityScore_col

text \<open>\<^verbatim>\<open>df[score_col]\<close>: the column as a series, KeyError when the frame lacks it.\<close>

definition getitem_score :: "dataframe \<Rightarrow> score_col \<Rightarrow> error + real list" where
  "getitem_score df score_col =
     (case score_col of
        PopularityScore \<Rightarrow> Inr (map popularity_score (rows df))
      | QualityScore_col \<Rightarrow>
          (if QualityScore \<in> columns df then Inr (map quality_score (rows df))
           else Inl KeyError))"

text \<open>
  The sum \<^verbatim>\<open>v + m\<close> is an int64 series plus a Python integer (the callers pass 10): it is
  computed in int64. The two quotients are float divisions.
\<close>

definition calculate_bayesian_average ::
  "dataframe \<Rightarrow> score_col \<Rightarrow> (course \<Rightarrow> int) \<Rightarrow> int \<Rightarrow> error + float list" where
  "calculate_bayesian_average df score_col count_col min_reviews =
     (case getitem_score df score_col of
        Inl e \<Rightarrow> Inl e
      | Inr R \<Rightarrow>
          (let C = mean R;
               m = min_reviews;
               v = map count_col (rows df)
           in Inr (map2 (\<lambda>v R. fadd (fmul (truediv v (int64 (v + m))) (Some R))
                                      (fmul (truediv m (int64 (v + m))) C)) v R)))"

definition calculate_confidence_level :: "int \<Rightarrow> string" where
  "calculate_confidence_level n =
     (if n \<ge> 100 then ''High''
      else if n \<ge> 20 then ''Medium''
      else if n \<ge> 5 then ''Low''
      else ''Very Low'')"

section \<open>Enrichment\<close>

text \<open>
  \<^verbatim>\<open>df[col] = series\<close>: the frame gains the column (or has it overwritten) and row \<open>i\<close>
  takes the \<open>i\<close>-th value of the series.
\<close>

definition setitem_bayesian_popularity :: "float list \<Rightarrow> dataframe \<Rightarrow> dataframe" where
  "setitem_bayesian_popularity vs df =
     df\<lparr>columns := insert BayesianPopularity (columns df),
        rows := map2 (\<lambda>row v. row\<lparr>bayesian_popularity := v\<rparr>) (rows df) vs\<rparr>"

definition setitem_bayesian_quality :: "float list \<Rightarrow> dataframe \<Rightarrow> dataframe" where
  "setitem_bayesian_quality vs df =
     df\<lparr>columns := insert BayesianQuality (columns df),
        rows := map2 (\<lambda>row v. row\<lparr>bayesian_quality := v\<rparr>) (rows df) vs\<rparr>"

definition setitem_confidence_level :: "string list \<Rightarrow> dataframe \<Rightarrow> dataframe" where
  "setitem_confidence_level vs df =
     df\<lparr>columns := insert ConfidenceLevel (columns df),
        rows := map2 (\<lambda>row v. row\<lparr>confidence_level := v\<rparr>) (rows df) vs\<rparr>"

definition setitem_engagement_per_subscriber :: "real list \<Rightarrow> dataframe \<Rightarrow> dataframe" where
  "setitem_engagement_per_subscriber vs df =
     df\<lparr>columns := insert EngagementPerSubscriber (columns df),
        rows := map2 (\<lambda>row v. row\<lparr>engagement_per_subscriber := v\<rparr>) (rows df) vs\<rparr>"

definition setitem_is_suspicious :: "bool list \<Rightarrow> dataframe \<Rightarrow> dataframe" where
  "setitem_is_suspicious vs df =
     df\<lparr>columns := insert IsSuspicious (columns df),
        rows := map2 (\<lambda>row v. row\<lparr>is_suspicious := v\<rparr>) (rows df) vs\<rparr>"

text \<open>
  Frames are Python objects, passed by reference and mutated in place. The store holds
  the live frames; a reference is a position in it. \<^verbatim>\<open>df.copy()\<close> allocates a new
  object holding the same data; an assignment \<^verbatim>\<open>df[col] = ...\<close> changes the object that
  the name \<^verbatim>\<open>df\<close> refers to.
\<close>

type_synonym ref = nat
type_synonym store = "dataframe list"

definition df_copy :: "store \<Rightarrow> ref \<Rightarrow> ref \<times> store" where
  "df_copy st r = (length st, st @ [st ! r])"

definition setitem :: "store \<Rightarrow> ref \<Rightarrow> (dataframe \<Rightarrow> dataframe) \<Rightarrow> store" where
  "setitem st r f = st[r := f (st ! r)]"

definition enhance_dataframe :: "store \<Rightarrow> ref \<Rightarrow> error + (ref \<times> store)" where
  "enhance_dataframe st0 df0 =
     (let (df, st1) = df_copy st0 df0 in
      (case calculate_bayesian_average (st1 ! df) PopularityScore num_reviews 10 of
         Inl e \<Rightarrow> Inl e
       | Inr bp \<Rightarrow>
          (let st2 = setitem st1 df (setitem_bayesian_popularity bp) in
           (case (if QualityScore \<in> columns (st2 ! df)
                  then (case calculate_bayesian_average (st2 ! df) QualityScore_col num_reviews 10 of
                          Inl e \<Rightarrow> Inl e
                        | Inr bq \<Rightarrow> Inr (setitem st2 df (setitem_bayesian_quality bq)))
                  else Inr st2) of
              Inl e \<Rightarrow> Inl e
            | Inr st3 \<Rightarrow>
               (let st4 = setitem st3 df (setitem_confidence_level
                            (map (\<lambda>row. calculate_confidence_level (num_reviews row))
                                 (rows (st3 ! df))));
                    st5 = setitem st4 df (setitem_engagement_per_subscriber
                            (map (\<lambda>row. if num_subscribers row > 0
                                        then real_of_int (num_reviews row)
                                             / real_of_int (num_subscribers row)
                                        else 0)
                                 (rows (st4 ! df))));
                    st6 = setitem st5 df (setitem_is_suspicious
                            (map (\<lambda>row. review_rate row \<ge> 99 / 100 \<and> num_subscribers row < 50)
                                 (rows (st5 ! df))))
                in Inr (df, st6))))))"

section \<open>Recommendation query\<close>

record recommendation =
  rec_course_id :: int
  rec_course_title :: string
  rec_subject :: string
  rec_price :: real
  rec_num_subscribers :: int
  rec_num_reviews :: int
  rec_bayesian_popularity :: float
  rec_confidence_level :: string
  similarity_score :: real

text \<open>
  \<^verbatim>\<open>df[df['course_id'] == course_id].index[0]\<close>: the position of the first row carrying
  the identity, if any.
\<close>

fun first_index :: "course list \<Rightarrow> int \<Rightarrow> nat option" where
  "first_index [] cid = None"
| "first_index (row # rest) cid =
     (if course_id row = cid then Some 0 else map_option Suc (first_index rest cid))"

text \<open>
  The dictionary appended for an admitted course. \<^verbatim>\<open>course.get(col, default)\<close> reads the
  column when the frame has it; \<^verbatim>\<open>popularity_score\<close> is a base column.
\<close>

definition recommendation_dict :: "dataframe \<Rightarrow> course \<Rightarrow> real \<Rightarrow> recommendation" where
  "recommendation_dict df course similarity =
     \<lparr>rec_course_id = course_id course,
      rec_course_title = course_title course,
      rec_subject = subject course,
      rec_price = price course,
      rec_num_subscribers = num_subscribers course,
      rec_num_reviews = num_reviews course,
      rec_bayesian_popularity =
        (if BayesianPopularity \<in> columns df then bayesian_popularity course
         else Some (popularity_score course)),
      rec_confidence_level =
        (if ConfidenceLevel \<in> columns df then confidence_level course else ''Unknown''),
      similarity_score = similarity\<rparr>"

definition admitted :: "dataframe \<Rightarrow> int \<Rightarrow> course \<Rightarrow> bool" where
  "admitted df min_reviews course \<longleftrightarrow>
     num_reviews course \<ge> min_reviews \<and>
     \<not> (if IsSuspicious \<in> columns df then is_suspicious course else False)"

text \<open>The \<^verbatim>\<open>for\<close> loop over the remaining scores; the length test follows the append.\<close>

fun recommend_loop ::
  "dataframe \<Rightarrow> int \<Rightarrow> int \<Rightarrow> (nat \<times> real) list \<Rightarrow> recommendation list
     \<Rightarrow> error + recommendation list" where
  "recommend_loop df n min_reviews [] recommendations = Inr recommendations"
| "recommend_loop df n min_reviews ((score_idx, similarity) # sim_scores) recommendations =
     (if score_idx \<ge> length (rows df) then Inl OutOfBounds
      else
        let course = rows df ! score_idx;
            recommendations' =
              (if admitted df min_reviews course
               then recommendations @ [recommendation_dict df course similarity]
               else recommendations)
        in if int (length recommendations') \<ge> n then Inr recommendations'
           else recommend_loop df n min_reviews sim_scores recommendations')"

text \<open>
  The body of the \<^verbatim>\<open>try\<close>. \<^verbatim>\<open>sorted(..., reverse=True)\<close> is a stable sort by descending
  key: elements with equal keys keep their order.
\<close>

definition get_recommendations_try ::
  "int \<Rightarrow> dataframe \<Rightarrow> real list list \<Rightarrow> int \<Rightarrow> int \<Rightarrow> error + recommendation list" where
  "get_recommendations_try cid df cosine_sim n min_reviews =
     (case first_index (rows df) cid of
        None \<Rightarrow> Inl NotFound
      | Some idx \<Rightarrow>
          if idx \<ge> length cosine_sim then Inl OutOfBounds
          else
            let sim_scores1 = List.enumerate 0 (cosine_sim ! idx);
                sim_scores2 = sort_key (\<lambda>x. - snd x) sim_scores1;
                sim_scores3 = drop 1 sim_scores2
            in recommend_loop df n min_reviews sim_scores3 [])"

text \<open>
  The whole function: the returned frame (its rows) and what was passed to
  \<^verbatim>\<open>st.error\<close>. An exception is caught, reported, and an empty frame is returned.
\<close>

definition get_recommendations ::
  "int \<Rightarrow> dataframe \<Rightarrow> real list list \<Rightarrow> int \<Rightarrow> int \<Rightarrow> recommendation list \<times> error option" where
  "get_recommendations cid df cosine_sim n min_reviews =
     (case get_recommendations_try cid df cosine_sim n min_reviews of
        Inr recommendations \<Rightarrow> (recommendations, None)
      | Inl e \<Rightarrow> ([], Some e))"

text \<open>
  \<^verbatim>\<open>build_recommender\<close> returns a matrix with one row and one column per row of the
  frame; a matrix of that shape matches the frame.
\<close>

definition matches_frame :: "real list list \<Rightarrow> dataframe \<Rightarrow> bool" where
  "matches_frame cosine_sim df \<longleftrightarrow>
     length cosine_sim = length (rows df) \<and>
     list_all (\<lambda>sims. length sims = length (rows df)) cosine_sim"

section \<open>Similarity index builder\<close>

text \<open>
  Modelled from the spec: \<^verbatim>\<open>cosine_similarity\<close> and \<^verbatim>\<open>TfidfVectorizer\<close> are functions of
  scikit-learn; their code is not in the repository's files. The spec has the builder
  compute the pairwise cosine similarity between every pair of rows of the term-weight
  matrix. The library documents it as the dot product of the rows after each is divided
  by its Euclidean norm, a row of norm zero being left as it is. Weights are reals.
\<close>

definition dot :: "real list \<Rightarrow> real list \<Rightarrow> real" where
  "dot x y = sum_list (map2 (*) x y)"

definition l2_norm :: "real list \<Rightarrow> real" where
  "l2_norm x = sqrt (dot x x)"

definition normalize_row :: "real list \<Rightarrow> real list" where
  "normalize_row x = (if l2_norm x = 0 then x else map (\<lambda>a. a / l2_norm x) x)"

definition cosine_similarity :: "real list list \<Rightarrow> real list list \<Rightarrow> real list list" where
  "cosine_similarity X Y =
     map (\<lambda>x. map (\<lambda>y. dot (normalize_row x) (normalize_row y)) Y) X"

text \<open>\<^verbatim>\<open>df['content'] = ...\<close>, the title and the subject joined by a space.\<close>

definition setitem_content :: "string list \<Rightarrow> dataframe \<Rightarrow> dataframe" where
  "setitem_content vs df =
     df\<lparr>columns := insert Content (columns df),
        rows := map2 (\<lambda>row v. row\<lparr>content := v\<rparr>) (rows df) vs\<rparr>"

text \<open>
  The builder. The fitted vectorizer is a parameter: \<open>fit_transform\<close> gives the term-weight
  matrix of the content strings, one row per string, or fails when no term is left for a
  vocabulary. The caching of the decorator is not modelled.
\<close>

definition build_recommender ::
  "(string list \<Rightarrow> error + real list list) \<Rightarrow> store \<Rightarrow> ref
     \<Rightarrow> error + (real list list \<times> ref \<times> store)" where
  "build_recommender fit_transform st0 df0 =
     (let (df, st1) = df_copy st0 df0;
          st2 = setitem st1 df (setitem_content
                  (map (\<lambda>row. course_title row @ '' '' @ subject row) (rows (st1 ! df))))
      in (case fit_transform (map content (rows (st2 ! df))) of
            Inl e \<Rightarrow> Inl e
          | Inr tfidf_matrix \<Rightarrow> Inr (cosine_similarity tfidf_matrix tfidf_matrix, df, st2)))"

section \<open>Closed forms used in the proofs\<close>

text \<open>
  The adjusted score that \<^verbatim>\<open>calculate_bayesian_average\<close> gives a row when called by
  \<^verbatim>\<open>enhance_dataframe\<close> (evidence column \<^verbatim>\<open>num_reviews\<close>, constant 10), and the frame
  that the assignments of \<^verbatim>\<open>enhance_dataframe\<close> leave in the copy. Both are proved equal
  to what the code computes (\<open>cba_popularity\<close>, \<open>cba_quality\<close>, \<open>enhance_dataframe_eq\<close>).
\<close>

definition shrunk :: "(course \<Rightarrow> real) \<Rightarrow> course list \<Rightarrow> course \<Rightarrow> float" where
  "shrunk score rs row =
     fadd (fmul (truediv (num_reviews row) (int64 (num_reviews row + 10))) (Some (score row)))
          (fmul (truediv 10 (int64 (num_reviews row + 10))) (mean (map score rs)))"

definition enhanced :: "dataframe \<Rightarrow> dataframe" where
  "enhanced d =
     \<lparr>columns =
        insert IsSuspicious (insert EngagementPerSubscriber (insert ConfidenceLevel
          ((if QualityScore \<in> columns d then insert BayesianQuality else id)
             (insert BayesianPopularity (columns d))))),
      rows = map (\<lambda>row. row
        \<lparr>bayesian_popularity := shrunk popularity_score (rows d) row,
         bayesian_quality :=
           (if QualityScore \<in> columns d then shrunk quality_score (rows d) row
            else bayesian_quality row),
         confidence_level := calculate_confidence_level (num_reviews row),
         engagement_per_subscriber :=
           (if num_subscribers row > 0
            then real_of_int (num_reviews row) / real_of_int (num_subscribers row) else 0),
         is_suspicious := (review_rate row \<ge> 99 / 100 \<and> num_subscribers row < 50)\<rparr>) (rows d)\<rparr>"

text \<open>The frame a call returned, read from the store it left.\<close>

definition returned_frame :: "error + (ref \<times> store) \<Rightarrow> dataframe option" where
  "returned_frame res = (case res of Inl e \<Rightarrow> None | Inr (r, st) \<Rightarrow> Some (st ! r))"

text \<open>The matrix a call of the builder returned.\<close>

definition returned_matrix ::
  "error + (real list list \<times> ref \<times> store) \<Rightarrow> real list list option" where
  "returned_matrix res = (case res of Inl e \<Rightarrow> None | Inr (cosine_sim, r, st) \<Rightarrow> Some cosine_sim)"

text \<open>
  The order of the walk: higher similarity first, and among equal similarities the
  lower row position first.
\<close>

definition ranked :: "nat \<times> real \<Rightarrow> nat \<times> real \<Rightarrow> bool" where
  "ranked a b \<longleftrightarrow> snd a > snd b \<or> (snd a = snd b \<and> fst a < fst b)"

section \<open>Example data\<close>

text \<open>A row as the table supplies it; the derived fields hold nothing yet.\<close>

definition raw_course ::
  "int \<Rightarrow> string \<Rightarrow> string \<Rightarrow> int \<Rightarrow> int \<Rightarrow> real \<Rightarrow> real \<Rightarrow> real \<Rightarrow> course" where
  "raw_course cid title subj subs revs rate pop qual =
     \<lparr>course_id = cid, course_title = title, subject = subj, price = 20,
      num_subscribers = subs, num_reviews = revs, review_rate = rate,
      popularity_score = pop, quality_score = qual,
      bayesian_popularity = None, bayesian_quality = None, confidence_level = [],
      engagement_per_subscriber = 0, is_suspicious = False, content = []\<rparr>"

text \<open>Three courses: many reviews, very few reviews, a fair number; mean popularity 1/2.\<close>

definition catalog :: dataframe where
  "catalog =
     \<lparr>columns = {QualityScore},
      rows = [raw_course 1 ''Python Basics'' ''Web Development'' 1000 100 (1 / 10) (9 / 10) (4 / 5),
              raw_course 2 ''Python Advanced'' ''Web Development'' 5 2 (2 / 5) (1 / 10) (1 / 5),
              raw_course 3 ''Stock Trading'' ''Business Finance'' 500 50 (1 / 10) (1 / 2) (1 / 2)]\<rparr>"

definition catalog_sim :: "real list list" where
  "catalog_sim = [[1, 4 / 5, 1 / 5], [4 / 5, 1, 1 / 10], [1 / 5, 1 / 10, 1]]"

text \<open>
  Two courses with the same title and subject under different identities: their content
  strings are equal, so every entry of their similarity matrix is the same value.
\<close>

definition twin_courses :: dataframe where
  "twin_courses =
     \<lparr>columns = {QualityScore},
      rows = [raw_course 1 ''Learn Excel'' ''Business Finance'' 100 10 (1 / 10) (1 / 2) (1 / 2),
              raw_course 2 ''Learn Excel'' ''Business Finance'' 100 10 (1 / 10) (1 / 2) (1 / 2)]\<rparr>"

definition twin_sim :: "real list list" where
  "twin_sim = [[1, 1], [1, 1]]"

text \<open>
  Two one-row frames with the same counts (10 reviews, 10 subscribers) and a different
  \<^verbatim>\<open>review_rate\<close> column.
\<close>

definition rate_stated_high :: dataframe where
  "rate_stated_high =
     \<lparr>columns = {}, rows = [raw_course 7 ''A'' ''B'' 10 10 1 (1 / 2) 0]\<rparr>"

definition rate_stated_low :: dataframe where
  "rate_stated_low =
     \<lparr>columns = {}, rows = [raw_course 7 ''A'' ''B'' 10 10 0 (1 / 2) 0]\<rparr>"

text \<open>Small subscriber counts at and below the threshold 50, all with review rate 1.\<close>

definition small_courses :: dataframe where
  "small_courses =
     \<lparr>columns = {},
      rows = [raw_course 1 ''A'' ''S'' 10 10 1 (1 / 2) 0,
              raw_course 2 ''B'' ''S'' 50 50 1 (1 / 2) 0]\<rparr>"

definition empty_frame :: dataframe where
  "empty_frame = \<lparr>columns = {}, rows = []\<rparr>"

text \<open>
  The rates and subscriber counts of \<open>small_courses\<close> under other identities, titles and
  review counts.
\<close>

definition small_courses_other :: dataframe where
  "small_courses_other =
     \<lparr>columns = {QualityScore},
      rows = [raw_course 8 ''C'' ''T'' 10 3 1 (1 / 4) (1 / 3),
              raw_course 9 ''D'' ''T'' 50 7 1 (3 / 4) (2 / 3)]\<rparr>"

text \<open>
  Rows whose \<^verbatim>\<open>review_rate\<close> column is not the quotient of their counts: 49 reviews of 49
  subscribers recorded with rate 0, and no review of 10 subscribers recorded with rate 1.
\<close>

definition stale_rates :: dataframe where
  "stale_rates =
     \<lparr>columns = {},
      rows = [raw_course 1 ''A'' ''S'' 49 49 0 (1 / 2) 0,
              raw_course 2 ''B'' ''S'' 10 0 1 (1 / 2) 0]\<rparr>"

text \<open>
  The twin courses again, the first with 2 reviews only: with a minimum of 5 reviews the
  second course is the only one that passes the filter.
\<close>

definition twin_low :: dataframe where
  "twin_low =
     \<lparr>columns = {QualityScore},
      rows = [raw_course 1 ''Learn Excel'' ''Business Finance'' 100 2 (1 / 50) (1 / 2) (1 / 2),
              raw_course 2 ''Learn Excel'' ''Business Finance'' 100 10 (1 / 10) (1 / 2) (1 / 2)]\<rparr>"

text \<open>
  Five courses with 20 reviews each. For the first, the third is the most similar and the
  other three tie.
\<close>

definition shelf :: dataframe where
  "shelf =
     \<lparr>columns = {QualityScore},
      rows = [raw_course 1 ''Python Basics'' ''Web Development'' 200 20 (1 / 10) (1 / 2) (1 / 2),
              raw_course 2 ''Python Games'' ''Web Development'' 200 20 (1 / 10) (1 / 2) (1 / 2),
              raw_course 3 ''Python Basics Two'' ''Web Development'' 200 20 (1 / 10) (1 / 2) (1 / 2),
              raw_course 4 ''Python Robots'' ''Web Development'' 200 20 (1 / 10) (1 / 2) (1 / 2),
              raw_course 5 ''Python Charts'' ''Web Development'' 200 20 (1 / 10) (1 / 2) (1 / 2)]\<rparr>"

definition shelf_sim :: "real list list" where
  "shelf_sim =
     [[1, 1 / 2, 4 / 5, 1 / 2, 1 / 2],
      [1 / 2, 1, 1 / 5, 1 / 5, 1 / 5],
      [4 / 5, 1 / 5, 1, 1 / 5, 1 / 5],
      [1 / 2, 1 / 5, 1 / 5, 1, 1 / 5],
      [1 / 2, 1 / 5, 1 / 5, 1 / 5, 1]]"

text \<open>
  Two courses, the first with stop words only. With English stop words removed the
  vocabulary has the one term \<^verbatim>\<open>python\<close>, and the term-weight matrix of the two content
  strings is \<open>[[0], [1]]\<close>.
\<close>

definition stopword_courses :: dataframe where
  "stopword_courses =
     \<lparr>columns = {QualityScore},
      rows = [raw_course 1 ''The And'' ''Of'' 100 10 (1 / 10) (1 / 2) (1 / 2),
              raw_course 2 ''Python'' ''The'' 100 10 (1 / 10) (1 / 2) (1 / 2)]\<rparr>"

definition stopword_vectorizer :: "string list \<Rightarrow> error + real list list" where
  "stopword_vectorizer contents =
     Inr (map (\<lambda>c. if c = ''Python The'' then [1] else [0]) contents)"

section \<open>Lemmas about enrichment\<close>

lemma zip_same_map: "zip xs (map g xs) = map (\<lambda>x. (x, g x)) xs"
  by (induction xs) auto

lemma zip_maps: "zip (map a xs) (map b xs) = map (\<lambda>x. (a x, b x)) xs"
  by (induction xs) auto

lemma cba_popularity:
  "calculate_bayesian_average df PopularityScore num_reviews 10 =
     Inr (map (shrunk popularity_score (rows df)) (rows df))"
  by (simp add: calculate_bayesian_average_def getitem_score_def zip_maps shrunk_def)

lemma cba_quality:
  "QualityScore \<in> columns df \<Longrightarrow>
   calculate_bayesian_average df QualityScore_col num_reviews 10 =
     Inr (map (shrunk quality_score (rows df)) (rows df))"
  by (simp add: calculate_bayesian_average_def getitem_score_def zip_maps shrunk_def)

lemma setitem_bayesian_popularity_rows:
  "rows (setitem_bayesian_popularity (map h (rows df)) df) =
     map (\<lambda>row. row\<lparr>bayesian_popularity := h row\<rparr>) (rows df)"
  by (simp add: setitem_bayesian_popularity_def zip_same_map)

lemma setitem_bayesian_quality_rows:
  "rows (setitem_bayesian_quality (map h (rows df)) df) =
     map (\<lambda>row. row\<lparr>bayesian_quality := h row\<rparr>) (rows df)"
  by (simp add: setitem_bayesian_quality_def zip_same_map)

lemma setitem_confidence_level_rows:
  "rows (setitem_confidence_level (map h (rows df)) df) =
     map (\<lambda>row. row\<lparr>confidence_level := h row\<rparr>) (rows df)"
  by (simp add: setitem_confidence_level_def zip_same_map)

lemma setitem_engagement_per_subscriber_rows:
  "rows (setitem_engagement_per_subscriber (map h (rows df)) df) =
     map (\<lambda>row. row\<lparr>engagement_per_subscriber := h row\<rparr>) (rows df)"
  by (simp add: setitem_engagement_per_subscriber_def zip_same_map)

lemma setitem_is_suspicious_rows:
  "rows (setitem_is_suspicious (map h (rows df)) df) =
     map (\<lambda>row. row\<lparr>is_suspicious := h row\<rparr>) (rows df)"
  by (simp add: setitem_is_suspicious_def zip_same_map)

lemma setitem_columns:
  "columns (setitem_bayesian_popularity vs1 df) = insert BayesianPopularity (columns df)"
  "columns (setitem_bayesian_quality vs2 df) = insert BayesianQuality (columns df)"
  "columns (setitem_confidence_level vs3 df) = insert ConfidenceLevel (columns df)"
  "columns (setitem_engagement_per_subscriber vs4 df) = insert EngagementPerSubscriber (columns df)"
  "columns (setitem_is_suspicious vs5 df) = insert IsSuspicious (columns df)"
  by (simp_all add: setitem_bayesian_popularity_def setitem_bayesian_quality_def
      setitem_confidence_level_def setitem_engagement_per_subscriber_def setitem_is_suspicious_def)

lemma enhance_dataframe_eq:
  assumes "r < length st"
  shows "enhance_dataframe st r = Inr (length st, st @ [enhanced (st ! r)])"
proof -
  define d where "d = st ! r"
  define d2 where
    "d2 = setitem_bayesian_popularity (map (shrunk popularity_score (rows d)) (rows d)) d"
  define d3 where
    "d3 = (if QualityScore \<in> columns d
           then setitem_bayesian_quality (map (shrunk quality_score (rows d2)) (rows d2)) d2
           else d2)"
  define d4 where
    "d4 = setitem_confidence_level
            (map (\<lambda>row. calculate_confidence_level (num_reviews row)) (rows d3)) d3"
  define d5 where
    "d5 = setitem_engagement_per_subscriber
            (map (\<lambda>row. if num_subscribers row > 0
                        then real_of_int (num_reviews row) / real_of_int (num_subscribers row)
                        else 0) (rows d4)) d4"
  define d6 where
    "d6 = setitem_is_suspicious
            (map (\<lambda>row. review_rate row \<ge> 99 / 100 \<and> num_subscribers row < 50) (rows d5)) d5"
  have run: "enhance_dataframe st r = Inr (length st, st @ [d6])"
    unfolding d6_def d5_def d4_def d3_def d2_def d_def using assms
    by (simp add: enhance_dataframe_def df_copy_def setitem_def Let_def cba_popularity
        cba_quality setitem_columns)
  have r2: "rows d2 = map (\<lambda>row. row\<lparr>bayesian_popularity := shrunk popularity_score (rows d) row\<rparr>) (rows d)"
    unfolding d2_def by (rule setitem_bayesian_popularity_rows)
  have r3: "rows d3 = map (\<lambda>row. row\<lparr>bayesian_popularity := shrunk popularity_score (rows d) row,
              bayesian_quality := (if QualityScore \<in> columns d then shrunk quality_score (rows d) row
                                   else bayesian_quality row)\<rparr>) (rows d)"
  proof (cases "QualityScore \<in> columns d")
    case True
    have "rows d3 = map (\<lambda>row. row\<lparr>bayesian_quality := shrunk quality_score (rows d2) row\<rparr>) (rows d2)"
      using True unfolding d3_def by (simp add: setitem_bayesian_quality_rows)
    then show ?thesis using True
      by (simp add: r2 o_def shrunk_def)
  next
    case False
    then show ?thesis by (simp add: d3_def r2)
  qed
  have r4: "rows d4 = map (\<lambda>row. row\<lparr>confidence_level := calculate_confidence_level (num_reviews row)\<rparr>) (rows d3)"
    unfolding d4_def by (rule setitem_confidence_level_rows)
  have r5: "rows d5 = map (\<lambda>row. row\<lparr>engagement_per_subscriber :=
              (if num_subscribers row > 0
               then real_of_int (num_reviews row) / real_of_int (num_subscribers row) else 0)\<rparr>) (rows d4)"
    unfolding d5_def by (rule setitem_engagement_per_subscriber_rows)
  have r6: "rows d6 = map (\<lambda>row. row\<lparr>is_suspicious :=
              (review_rate row \<ge> 99 / 100 \<and> num_subscribers row < 50)\<rparr>) (rows d5)"
    unfolding d6_def by (rule setitem_is_suspicious_rows)
  have rows_eq: "rows d6 = rows (enhanced d)"
    by (simp add: r6 r5 r4 r3 o_def enhanced_def)
  have cols_eq: "columns d6 = columns (enhanced d)"
    by (simp add: d6_def d5_def d4_def d3_def d2_def setitem_columns enhanced_def)
  have "d6 = enhanced d"
    using rows_eq cols_eq by (rule_tac dataframe.equality) simp_all
  with run show ?thesis by (simp add: d_def)
qed

section \<open>Lemmas about the recommendation query\<close>

lemma first_index_None: "first_index rs cid = None \<longleftrightarrow> cid \<notin> course_id ` set rs"
  by (induction rs) auto

lemma first_index_Some:
  "first_index rs cid = Some i \<Longrightarrow> i < length rs \<and> course_id (rs ! i) = cid"
  by (induction rs arbitrary: i) (auto split: if_splits)

lemma sorted_wrt_insort_key_lex:
  fixes f :: "'a \<Rightarrow> 'k::linorder"
  assumes "sorted_wrt (\<lambda>a b. f a < f b \<or> (f a = f b \<and> R a b)) ys"
    and "\<forall>y\<in>set ys. R x y"
  shows "sorted_wrt (\<lambda>a b. f a < f b \<or> (f a = f b \<and> R a b)) (insort_key f x ys)"
  using assms
proof (induction ys)
  case Nil
  then show ?case by simp
next
  case (Cons y ys)
  show ?case
  proof (cases "f x \<le> f y")
    case True
    have "f x < f z \<or> (f x = f z \<and> R x z)" if "z \<in> set (y # ys)" for z
    proof -
      have "f y \<le> f z" using that Cons.prems(1) by auto
      with True have "f x \<le> f z" by simp
      moreover have "R x z" using that Cons.prems(2) by auto
      ultimately show ?thesis by auto
    qed
    with True Cons.prems(1) show ?thesis by simp
  next
    case False
    then have "f y < f x" by simp
    moreover have "sorted_wrt (\<lambda>a b. f a < f b \<or> (f a = f b \<and> R a b)) (insort_key f x ys)"
      using Cons by simp
    ultimately show ?thesis using False Cons.prems(1) by (auto simp: set_insort_key)
  qed
qed

lemma sorted_wrt_sort_key_lex:
  fixes f :: "'a \<Rightarrow> 'k::linorder"
  assumes "sorted_wrt R xs"
  shows "sorted_wrt (\<lambda>a b. f a < f b \<or> (f a = f b \<and> R a b)) (sort_key f xs)"
  using assms
proof (induction xs)
  case Nil
  then show ?case by simp
next
  case (Cons x xs)
  then show ?case by (simp add: sorted_wrt_insort_key_lex)
qed

lemma sorted_wrt_enumerate: "sorted_wrt (\<lambda>a b. fst a < fst b) (List.enumerate n xs)"
proof -
  have "sorted_wrt (<) (map fst (List.enumerate n xs))" by simp
  then show ?thesis by (simp only: sorted_wrt_map)
qed

lemma sorted_wrt_ranked_scores:
  "sorted_wrt ranked (drop 1 (sort_key (\<lambda>x. - snd x) (List.enumerate 0 sims)))"
proof -
  have "sorted_wrt (\<lambda>a b. - snd a < - snd b \<or> (- snd a = - snd b \<and> fst a < fst b))
          (sort_key (\<lambda>x. - snd x) (List.enumerate 0 sims))"
    by (rule sorted_wrt_sort_key_lex) (rule sorted_wrt_enumerate)
  then have "sorted_wrt ranked (sort_key (\<lambda>x. - snd x) (List.enumerate 0 sims))"
    by (simp add: ranked_def [abs_def])
  then show ?thesis by (rule sorted_wrt_drop)
qed

lemma set_ranked_scores:
  "p \<in> set (drop 1 (sort_key (\<lambda>x. - snd x) (List.enumerate 0 sims))) \<Longrightarrow>
   fst p < length sims \<and> snd p = sims ! fst p"
proof -
  assume "p \<in> set (drop 1 (sort_key (\<lambda>x. - snd x) (List.enumerate 0 sims)))"
  then have "p \<in> set (List.enumerate 0 sims)"
    using set_drop_subset [of 1 "sort_key (\<lambda>x. - snd x) (List.enumerate 0 sims)"] by auto
  then show ?thesis by (simp add: in_set_enumerate_eq)
qed


lemma recommend_loop_shape:
  assumes "recommend_loop df n m xs acc = Inr res" and "sorted_wrt Q xs"
  shows "\<exists>ps. res = acc @ map (\<lambda>p. recommendation_dict df (rows df ! fst p) (snd p)) ps \<and>
              sorted_wrt Q ps \<and> set ps \<subseteq> set xs \<and>
              (\<forall>p\<in>set ps. fst p < length (rows df) \<and> admitted df m (rows df ! fst p))"
  using assms
proof (induction xs arbitrary: acc)
  case Nil
  then show ?case by simp
next
  case (Cons x xs)
  obtain j s where x: "x = (j, s)" by (cases x)
  from Cons.prems(1) x have inb: "j < length (rows df)"
    by (auto split: if_splits)
  define acc' where "acc' = (if admitted df m (rows df ! j)
      then acc @ [recommendation_dict df (rows df ! j) s] else acc)"
  have "recommend_loop df n m (x # xs) acc =
          (if int (length acc') \<ge> n then Inr acc' else recommend_loop df n m xs acc')"
    using inb by (simp add: x acc'_def Let_def)
  with Cons.prems(1)
  have step: "(if int (length acc') \<ge> n then Inr acc' else recommend_loop df n m xs acc') = Inr res"
    by (simp only:)
  have tail: "\<exists>ps. res = acc' @ map (\<lambda>p. recommendation_dict df (rows df ! fst p) (snd p)) ps \<and>
              sorted_wrt Q ps \<and> set ps \<subseteq> set xs \<and>
              (\<forall>p\<in>set ps. fst p < length (rows df) \<and> admitted df m (rows df ! fst p))"
  proof (cases "int (length acc') \<ge> n")
    case True
    with step have "res = acc'" by simp
    then show ?thesis by (intro exI [of _ "[]"]) simp
  next
    case False
    with step have "recommend_loop df n m xs acc' = Inr res" by simp
    moreover have "sorted_wrt Q xs" using Cons.prems(2) by simp
    ultimately show ?thesis by (rule Cons.IH)
  qed
  then obtain ps where ps: "res = acc' @ map (\<lambda>p. recommendation_dict df (rows df ! fst p) (snd p)) ps"
    "sorted_wrt Q ps" "set ps \<subseteq> set xs"
    "\<forall>p\<in>set ps. fst p < length (rows df) \<and> admitted df m (rows df ! fst p)"
    by blast
  show ?case
  proof (cases "admitted df m (rows df ! j)")
    case True
    have "\<forall>p\<in>set ps. Q x p" using Cons.prems(2) ps(3) by auto
    with ps True inb show ?thesis
      by (intro exI [of _ "x # ps"]) (auto simp: acc'_def x)
  next
    case False
    with ps show ?thesis
      by (intro exI [of _ ps]) (auto simp: acc'_def)
  qed
qed

lemma recommend_loop_length:
  assumes "recommend_loop df n m xs acc = Inr res" and "int (length acc) < max n 1"
  shows "int (length res) \<le> max n 1"
  using assms
proof (induction xs arbitrary: acc)
  case Nil
  then show ?case by simp
next
  case (Cons x xs)
  obtain j s where x: "x = (j, s)" by (cases x)
  from Cons.prems(1) x have inb: "j < length (rows df)"
    by (auto split: if_splits)
  define acc' where "acc' = (if admitted df m (rows df ! j)
      then acc @ [recommendation_dict df (rows df ! j) s] else acc)"
  have len: "int (length acc') \<le> max n 1" using Cons.prems(2) by (simp add: acc'_def)
  have "recommend_loop df n m (x # xs) acc =
          (if int (length acc') \<ge> n then Inr acc' else recommend_loop df n m xs acc')"
    using inb by (simp add: x acc'_def Let_def)
  with Cons.prems(1)
  have step: "(if int (length acc') \<ge> n then Inr acc' else recommend_loop df n m xs acc') = Inr res"
    by (simp only:)
  show ?case
  proof (cases "int (length acc') \<ge> n")
    case True
    with step len show ?thesis by simp
  next
    case False
    with step have "recommend_loop df n m xs acc' = Inr res" by simp
    moreover have "int (length acc') < max n 1" using False by simp
    ultimately show ?thesis by (rule Cons.IH)
  qed
qed

lemma recommend_loop_succeeds:
  assumes "\<forall>p\<in>set xs. fst p < length (rows df)"
  shows "\<exists>res. recommend_loop df n m xs acc = Inr res"
  using assms
proof (induction xs arbitrary: acc)
  case Nil
  then show ?case by simp
next
  case (Cons x xs)
  then show ?case by (cases x) (simp add: Let_def)
qed

lemma recommend_loop_none_admitted:
  assumes "\<forall>p\<in>set xs. fst p < length (rows df) \<and> \<not> admitted df m (rows df ! fst p)"
  shows "recommend_loop df n m xs acc = Inr acc"
  using assms
proof (induction xs)
  case Nil
  then show ?case by simp
next
  case (Cons x xs)
  then show ?case by (cases x) (simp add: Let_def)
qed

section \<open>Lemmas about the similarity index\<close>

lemma dot_commute: "dot x y = dot y x"
proof -
  have "map2 (*) x y = map2 (*) y x" for x y :: "real list"
    by (induction x y rule: list_induct2') (simp_all add: mult.commute)
  then show ?thesis by (simp add: dot_def)
qed

lemma dot_self: "dot x x = (\<Sum>a\<leftarrow>x. a * a)"
  by (induction x) (simp_all add: dot_def)

lemma dot_self_nonneg: "0 \<le> dot x x"
  unfolding dot_self by (induction x) simp_all

lemma dot_self_zero_iff: "dot x x = 0 \<longleftrightarrow> (\<forall>a\<in>set x. a = 0)"
proof (induction x)
  case Nil
  then show ?case by (simp add: dot_def)
next
  case (Cons a x)
  have "dot (a # x) (a # x) = a * a + dot x x" by (simp add: dot_def)
  moreover have "0 \<le> a * a" by simp
  moreover have "0 \<le> dot x x" by (rule dot_self_nonneg)
  ultimately have "dot (a # x) (a # x) = 0 \<longleftrightarrow> a * a = 0 \<and> dot x x = 0"
    by (simp add: add_nonneg_eq_0_iff)
  with Cons show ?case by simp
qed

lemma l2_norm_zero_iff: "l2_norm x = 0 \<longleftrightarrow> (\<forall>a\<in>set x. a = 0)"
  by (simp add: l2_norm_def dot_self_zero_iff)

lemma dot_scaled: "dot (map (\<lambda>a. a / c) x) (map (\<lambda>a. a / c) y) = dot x y / (c * c)"
proof -
  have "sum_list (map2 (*) (map (\<lambda>a. a / c) x) (map (\<lambda>a. a / c) y))
        = sum_list (map2 (*) x y) / (c * c)" for x y :: "real list"
    by (induction x y rule: list_induct2') (simp_all add: add_divide_distrib)
  then show ?thesis by (simp add: dot_def)
qed

lemma dot_normalize_self:
  "dot (normalize_row x) (normalize_row x) = (if \<forall>a\<in>set x. a = 0 then 0 else 1)"
proof (cases "l2_norm x = 0")
  case True
  then have "dot x x = 0" by (simp add: l2_norm_def)
  with True show ?thesis by (simp add: normalize_row_def l2_norm_zero_iff [symmetric])
next
  case False
  have sq: "l2_norm x * l2_norm x = dot x x"
    by (simp add: l2_norm_def dot_self_nonneg)
  have "dot x x \<noteq> 0" using False unfolding l2_norm_def by simp
  then have one: "dot x x / (l2_norm x * l2_norm x) = 1" unfolding sq by simp
  have nz: "\<not> (\<forall>a\<in>set x. a = 0)" using False by (simp add: l2_norm_zero_iff)
  have eq: "dot (normalize_row x) (normalize_row x) = dot x x / (l2_norm x * l2_norm x)"
    using False by (simp only: normalize_row_def dot_scaled if_False)
  show ?thesis unfolding eq one if_not_P [OF nz] by (rule refl)
qed

lemma cosine_similarity_nth:
  "i < length X \<Longrightarrow> j < length Y \<Longrightarrow>
   cosine_similarity X Y ! i ! j = dot (normalize_row (X ! i)) (normalize_row (Y ! j))"
  by (simp add: cosine_similarity_def)

lemma setitem_content_rows:
  "rows (setitem_content (map h (rows df)) df) = map (\<lambda>row. row\<lparr>content := h row\<rparr>) (rows df)"
  by (simp add: setitem_content_def zip_same_map)

lemma build_recommender_eq:
  assumes "r < length st"
  shows "build_recommender fit_transform st r =
     (case fit_transform (map (\<lambda>row. course_title row @ '' '' @ subject row) (rows (st ! r))) of
        Inl e \<Rightarrow> Inl e
      | Inr W \<Rightarrow> Inr (cosine_similarity W W, length st,
           st @ [setitem_content
                   (map (\<lambda>row. course_title row @ '' '' @ subject row) (rows (st ! r))) (st ! r)]))"
  using assms
  by (simp add: build_recommender_def df_copy_def setitem_def Let_def setitem_content_rows o_def
      split: sum.split)

section \<open>Further lemmas about the recommendation query\<close>

text \<open>
  With a similarity matrix of the frame's shape, the query reports an error exactly when
  no row carries the identity, and the error is then the one of the failed lookup,
  returned with an empty frame. When the identity is present and no row at all passes the
  filter, the query returns an empty frame and reports nothing.
\<close>

lemma error_reported_iff_absent:
  assumes "matches_frame cosine_sim df"
  shows "(snd (get_recommendations cid df cosine_sim n m) \<noteq> None
            \<longleftrightarrow> cid \<notin> course_id ` set (rows df)) \<and>
         (cid \<notin> course_id ` set (rows df) \<longrightarrow>
            get_recommendations cid df cosine_sim n m = ([], Some NotFound)) \<and>
         (cid \<in> course_id ` set (rows df) \<and> (\<forall>c\<in>set (rows df). \<not> admitted df m c) \<longrightarrow>
            get_recommendations cid df cosine_sim n m = ([], None)) \<and>
         (cid \<in> course_id ` set (rows df) \<and> cid' \<notin> course_id ` set (rows df) \<longrightarrow>
            get_recommendations cid df cosine_sim n m
              \<noteq> get_recommendations cid' df cosine_sim n' m')"
proof -
  have absent: "get_recommendations c df cosine_sim k l = ([], Some NotFound)"
    if "c \<notin> course_id ` set (rows df)" for c k l
  proof -
    from that have "first_index (rows df) c = None" by (simp add: first_index_None)
    then show ?thesis by (simp add: get_recommendations_def get_recommendations_try_def)
  qed
  have walk: "\<exists>idx. idx < length (rows df) \<and>
        get_recommendations_try c df cosine_sim k l =
          recommend_loop df k l
            (drop 1 (sort_key (\<lambda>x. - snd x) (List.enumerate 0 (cosine_sim ! idx)))) [] \<and>
        (\<forall>p\<in>set (drop 1 (sort_key (\<lambda>x. - snd x) (List.enumerate 0 (cosine_sim ! idx)))).
            fst p < length (rows df))"
    if "c \<in> course_id ` set (rows df)" for c k l
  proof -
    from that obtain idx where idx: "first_index (rows df) c = Some idx"
      using first_index_None [of "rows df" c] by (cases "first_index (rows df) c") auto
    then have lt: "idx < length (rows df)" by (auto dest: first_index_Some)
    with assms have lt': "idx < length cosine_sim" by (simp add: matches_frame_def)
    with assms have len: "length (cosine_sim ! idx) = length (rows df)"
      by (simp add: matches_frame_def list_all_length)
    have "fst p < length (rows df)"
      if "p \<in> set (drop 1 (sort_key (\<lambda>x. - snd x) (List.enumerate 0 (cosine_sim ! idx))))" for p
      using set_ranked_scores [OF that] len by simp
    with idx lt lt' show ?thesis
      by (intro exI [of _ idx]) (simp add: get_recommendations_try_def)
  qed
  have present: "snd (get_recommendations c df cosine_sim k l) = None"
    if "c \<in> course_id ` set (rows df)" for c k l
  proof -
    from walk [OF that, of k l] obtain idx where
      eq: "get_recommendations_try c df cosine_sim k l =
          recommend_loop df k l
            (drop 1 (sort_key (\<lambda>x. - snd x) (List.enumerate 0 (cosine_sim ! idx)))) []"
      and inb: "\<forall>p\<in>set (drop 1 (sort_key (\<lambda>x. - snd x) (List.enumerate 0 (cosine_sim ! idx)))).
            fst p < length (rows df)"
      by blast
    from recommend_loop_succeeds [OF inb, of k l "[]"] eq
    show ?thesis by (auto simp: get_recommendations_def)
  qed
  have none: "get_recommendations cid df cosine_sim n m = ([], None)"
    if "cid \<in> course_id ` set (rows df)" and "\<forall>c\<in>set (rows df). \<not> admitted df m c"
  proof -
    from walk [OF that(1), of n m] obtain idx where
      eq: "get_recommendations_try cid df cosine_sim n m =
          recommend_loop df n m
            (drop 1 (sort_key (\<lambda>x. - snd x) (List.enumerate 0 (cosine_sim ! idx)))) []"
      and inb: "\<forall>p\<in>set (drop 1 (sort_key (\<lambda>x. - snd x) (List.enumerate 0 (cosine_sim ! idx)))).
            fst p < length (rows df)"
      by blast
    from inb that(2)
    have "\<forall>p\<in>set (drop 1 (sort_key (\<lambda>x. - snd x) (List.enumerate 0 (cosine_sim ! idx)))).
            fst p < length (rows df) \<and> \<not> admitted df m (rows df ! fst p)"
      by auto
    from recommend_loop_none_admitted [OF this, of n "[]"] eq
    show ?thesis by (simp add: get_recommendations_def)
  qed
  have "snd (get_recommendations cid df cosine_sim n m) \<noteq> None
            \<longleftrightarrow> cid \<notin> course_id ` set (rows df)"
    using absent [of cid n m] present [of cid n m] by auto
  moreover have "get_recommendations cid df cosine_sim n m
              \<noteq> get_recommendations cid' df cosine_sim n' m'"
    if "cid \<in> course_id ` set (rows df)" and "cid' \<notin> course_id ` set (rows df)"
    using absent [OF that(2), of n' m'] present [OF that(1), of n m] by auto
  ultimately show ?thesis using absent [of cid n m] none by blast
qed

section \<open>Confidence tier\<close>

text \<open>
  C7. The confidence tier is a function of the review count alone: a count of at least
  100 gives High, 20 to 99 Medium, 5 to 19 Low and anything below 5 (so 0 to 4) Very Low;
  the boundary counts 4, 5, 19, 20, 99 and 100 fall on the sides the table says.
\<close>

theorem confidence_level_table:
  "(calculate_confidence_level n = ''High'' \<longleftrightarrow> 100 \<le> n) \<and>
   (calculate_confidence_level n = ''Medium'' \<longleftrightarrow> 20 \<le> n \<and> n \<le> 99) \<and>
   (calculate_confidence_level n = ''Low'' \<longleftrightarrow> 5 \<le> n \<and> n \<le> 19) \<and>
   (calculate_confidence_level n = ''Very Low'' \<longleftrightarrow> n \<le> 4) \<and>
   calculate_confidence_level 4 = ''Very Low'' \<and>
   calculate_confidence_level 5 = ''Low'' \<and>
   calculate_confidence_level 19 = ''Low'' \<and>
   calculate_confidence_level 20 = ''Medium'' \<and>
   calculate_confidence_level 99 = ''Medium'' \<and>
   calculate_confidence_level 100 = ''High''"
  by (simp add: calculate_confidence_level_def)

theorem confidence_level_table_witness:
  "calculate_confidence_level 57 = ''Medium'' \<and> (20::int) \<le> 57 \<and> (57::int) \<le> 99"
  using confidence_level_table [of 57] by simp

section \<open>Bayesian scorer\<close>

text \<open>
  C3. For every frame and every row whose review count \<open>v\<close> is an int64 value with
  \<open>v + 10\<close> still in int64 (\<open>v < 2^63 - 10\<close>, so that the sum does not wrap) and is not
  \<open>-10\<close> (so that the divisor \<open>v + 10\<close> is not zero), enrichment succeeds and
  the row's adjusted popularity is
  \<open>(v / (v + 10)) * popularity + (10 / (v + 10)) * mean\<close>, where \<open>v\<close> is the row's review
  count and \<open>mean\<close> is the arithmetic mean of the popularity score over all rows of the
  frame at the call. When the frame has a quality column the adjusted quality is the same
  formula on the quality score with the mean of the quality scores; when it has none, no
  adjusted quality is written.
\<close>

theorem bayesian_scores_formula:
  assumes "r < length st" and "i < length (rows (st ! r))"
    and "num_reviews (rows (st ! r) ! i) \<noteq> - 10"
    and "- (2 ^ 63) \<le> num_reviews (rows (st ! r) ! i)"
    and "num_reviews (rows (st ! r) ! i) < 2 ^ 63 - 10"
  shows "\<exists>st'. enhance_dataframe st r = Inr (length st, st') \<and>
     (let d = st ! r; row = rows d ! i; e = rows (st' ! length st) ! i;
          v = real_of_int (num_reviews row); m = 10;
          mean_popularity = sum_list (map popularity_score (rows d)) / real (length (rows d));
          mean_quality = sum_list (map quality_score (rows d)) / real (length (rows d))
      in bayesian_popularity e =
           Some ((v / (v + m)) * popularity_score row + (m / (v + m)) * mean_popularity) \<and>
         (QualityScore \<in> columns d \<longrightarrow>
            bayesian_quality e =
              Some ((v / (v + m)) * quality_score row + (m / (v + m)) * mean_quality)) \<and>
         (QualityScore \<notin> columns d \<longrightarrow>
            bayesian_quality e = bayesian_quality row \<and>
            (BayesianQuality \<in> columns (st' ! length st) \<longleftrightarrow> BayesianQuality \<in> columns d)))"
proof -
  let ?d = "st ! r"
  have ne: "rows ?d \<noteq> []" using assms(2) by auto
  have "int64 (num_reviews (rows ?d ! i) + 10) = num_reviews (rows ?d ! i) + 10"
    using assms(4,5) by (simp add: int64_def)
  then have nz: "int64 (num_reviews (rows ?d ! i) + 10) = num_reviews (rows ?d ! i) + 10"
      "num_reviews (rows ?d ! i) + 10 \<noteq> 0"
    using assms(3) by simp_all
  have sh: "shrunk score (rows ?d) (rows ?d ! i) =
     Some ((real_of_int (num_reviews (rows ?d ! i)) / (real_of_int (num_reviews (rows ?d ! i)) + 10))
             * score (rows ?d ! i)
           + (10 / (real_of_int (num_reviews (rows ?d ! i)) + 10))
             * (sum_list (map score (rows ?d)) / real (length (rows ?d))))" for score
    using ne nz by (simp add: shrunk_def truediv_def fmul_def fadd_def mean_def)
  have run: "enhance_dataframe st r = Inr (length st, st @ [enhanced ?d])"
    using assms(1) by (rule enhance_dataframe_eq)
  have "bayesian_popularity (rows (enhanced ?d) ! i) = shrunk popularity_score (rows ?d) (rows ?d ! i)"
    using assms(2) by (simp add: enhanced_def)
  moreover have "QualityScore \<in> columns ?d \<Longrightarrow>
      bayesian_quality (rows (enhanced ?d) ! i) = shrunk quality_score (rows ?d) (rows ?d ! i)"
    using assms(2) by (simp add: enhanced_def)
  moreover have "QualityScore \<notin> columns ?d \<Longrightarrow>
      bayesian_quality (rows (enhanced ?d) ! i) = bayesian_quality (rows ?d ! i)"
    using assms(2) by (simp add: enhanced_def)
  moreover have "QualityScore \<notin> columns ?d \<Longrightarrow>
      (BayesianQuality \<in> columns (enhanced ?d) \<longleftrightarrow> BayesianQuality \<in> columns ?d)"
    by (simp add: enhanced_def)
  ultimately show ?thesis
    using run by (intro exI [of _ "st @ [enhanced ?d]"]) (simp add: sh Let_def)
qed

theorem bayesian_scores_formula_witness:
  "0 < length [catalog] \<and> 1 < length (rows ([catalog] ! 0)) \<and>
   num_reviews (rows ([catalog] ! 0) ! 1) \<noteq> - 10 \<and>
   - (2 ^ 63) \<le> num_reviews (rows ([catalog] ! 0) ! 1) \<and>
   num_reviews (rows ([catalog] ! 0) ! 1) < 2 ^ 63 - 10 \<and>
   (\<exists>st'. enhance_dataframe [catalog] 0 = Inr (1, st') \<and>
      bayesian_popularity (rows (st' ! 1) ! 1) = Some (13 / 30) \<and>
      bayesian_quality (rows (st' ! 1) ! 1) = Some (9 / 20))"
proof -
  have h1: "0 < length [catalog]" by simp
  have h2: "1 < length (rows ([catalog] ! 0))" by (simp add: catalog_def)
  have h3: "num_reviews (rows ([catalog] ! 0) ! 1) \<noteq> - 10"
    by (simp add: catalog_def raw_course_def)
  have h4: "- (2 ^ 63) \<le> num_reviews (rows ([catalog] ! 0) ! 1)"
    by (simp add: catalog_def raw_course_def)
  have h5: "num_reviews (rows ([catalog] ! 0) ! 1) < 2 ^ 63 - 10"
    by (simp add: catalog_def raw_course_def)
  from bayesian_scores_formula [OF h1 h2 h3 h4 h5] obtain st' where
    "enhance_dataframe [catalog] 0 = Inr (length [catalog], st')"
    "bayesian_popularity (rows (st' ! length [catalog]) ! 1) = Some (13 / 30)"
    "bayesian_quality (rows (st' ! length [catalog]) ! 1) = Some (9 / 20)"
    by (auto simp: Let_def catalog_def raw_course_def)
  then show ?thesis using h1 h2 h3 h4 h5 by auto
qed

text \<open>
  C5. An empty frame does not make the scorer fail: the call returns the empty series of
  adjusted scores. No score is produced, so no NaN score is produced either; the mean of
  the empty column, which is NaN, is never combined with a row. (The metric's column has
  to be in the frame, as for any call.)
\<close>

theorem empty_frame_scores:
  assumes "rows df = []"
    and "score_col = PopularityScore \<or> QualityScore \<in> columns df"
  shows "calculate_bayesian_average df score_col count_col m = Inr [] \<and>
         None \<notin> set (projr (calculate_bayesian_average df score_col count_col m))"
  using assms
  by (cases score_col) (auto simp: calculate_bayesian_average_def getitem_score_def)

theorem empty_frame_scores_witness:
  "rows empty_frame = [] \<and>
   (PopularityScore = PopularityScore \<or> QualityScore \<in> columns empty_frame) \<and>
   calculate_bayesian_average empty_frame PopularityScore num_reviews 10 = Inr []"
proof -
  have h1: "rows empty_frame = []" by (simp add: empty_frame_def)
  have h2: "PopularityScore = PopularityScore \<or> QualityScore \<in> columns empty_frame" by simp
  from empty_frame_scores [OF h1 h2] show ?thesis using h1 by simp
qed

theorem empty_frame_no_failure:
  "rows empty_frame = [] \<and>
   \<not> isl (calculate_bayesian_average empty_frame PopularityScore num_reviews 10)"
  by (simp add: empty_frame_def calculate_bayesian_average_def getitem_score_def)

section \<open>Suspicion flag\<close>

text \<open>
  C8. Enrichment succeeds and keeps the rows in place; in the returned frame the flag of
  every row is true exactly when the value of the row's \<^verbatim>\<open>review_rate\<close> column, the
  engagement rate carried in the input, is at least 0.99 and its subscriber count is
  below 50, so it is false for a row with exactly 50 subscribers whatever the rate. The
  \<^verbatim>\<open>review_rate\<close> and subscriber count of a returned row are those of the input row; the
  quotient of reviews by subscribers that enrichment recomputes is not consulted.
\<close>

theorem suspicion_flag_iff:
  assumes "r < length st"
  shows "\<exists>st'. enhance_dataframe st r = Inr (length st, st') \<and>
     IsSuspicious \<in> columns (st' ! length st) \<and>
     length (rows (st' ! length st)) = length (rows (st ! r)) \<and>
     (\<forall>i < length (rows (st ! r)).
        let row = rows (st ! r) ! i; e = rows (st' ! length st) ! i
        in review_rate e = review_rate row \<and> num_subscribers e = num_subscribers row \<and>
           (is_suspicious e \<longleftrightarrow> review_rate e \<ge> 99 / 100 \<and> num_subscribers e < 50) \<and>
           (num_subscribers e = 50 \<longrightarrow> \<not> is_suspicious e))"
proof -
  have "enhance_dataframe st r = Inr (length st, st @ [enhanced (st ! r)])"
    using assms by (rule enhance_dataframe_eq)
  then show ?thesis
    by (intro exI [of _ "st @ [enhanced (st ! r)]"]) (simp add: enhanced_def Let_def)
qed

theorem suspicion_flag_iff_witness:
  "0 < length [small_courses] \<and>
   (\<exists>st'. enhance_dataframe [small_courses] 0 = Inr (1, st') \<and>
      is_suspicious (rows (st' ! 1) ! 0) \<and> \<not> is_suspicious (rows (st' ! 1) ! 1))"
proof -
  have h: "0 < length [small_courses]" by simp
  from suspicion_flag_iff [OF h] obtain st' where
    run: "enhance_dataframe [small_courses] 0 = Inr (length [small_courses], st')"
    and all: "\<forall>i < length (rows ([small_courses] ! 0)).
        let row = rows ([small_courses] ! 0) ! i; e = rows (st' ! length [small_courses]) ! i
        in review_rate e = review_rate row \<and> num_subscribers e = num_subscribers row \<and>
           (is_suspicious e \<longleftrightarrow> review_rate e \<ge> 99 / 100 \<and> num_subscribers e < 50) \<and>
           (num_subscribers e = 50 \<longrightarrow> \<not> is_suspicious e)"
    by blast
  from all have "is_suspicious (rows (st' ! 1) ! 0)"
    by (simp add: Let_def small_courses_def raw_course_def)
  moreover from all have "\<not> is_suspicious (rows (st' ! 1) ! 1)"
    by (simp add: Let_def small_courses_def raw_course_def)
  ultimately show ?thesis using run by simp
qed

theorem suspicion_flag_ignores_recomputed_rate:
  "map_option (map engagement_per_subscriber \<circ> rows)
       (returned_frame (enhance_dataframe [stale_rates] 0)) = Some [1, 0] \<and>
   map_option (map num_subscribers \<circ> rows)
       (returned_frame (enhance_dataframe [stale_rates] 0)) = Some [49, 10] \<and>
   map_option (map is_suspicious \<circ> rows)
       (returned_frame (enhance_dataframe [stale_rates] 0)) = Some [False, True]"
  by (simp add: enhance_dataframe_eq returned_frame_def enhanced_def stale_rates_def
      raw_course_def)

text \<open>
  C4. The flag is computed from the \<^verbatim>\<open>review_rate\<close> column of the input and the subscriber
  count; the engagement rate that enrichment recomputes from the counts is not consulted.
  Two frames that agree, row by row, on the \<^verbatim>\<open>review_rate\<close> column and on the subscriber
  counts get identical flags.
\<close>

theorem suspicion_flag_depends_on_review_rate:
  assumes "r1 < length st1" and "r2 < length st2"
    and "map review_rate (rows (st1 ! r1)) = map review_rate (rows (st2 ! r2))"
    and "map num_subscribers (rows (st1 ! r1)) = map num_subscribers (rows (st2 ! r2))"
  shows "\<exists>st1' st2'.
     enhance_dataframe st1 r1 = Inr (length st1, st1') \<and>
     enhance_dataframe st2 r2 = Inr (length st2, st2') \<and>
     map is_suspicious (rows (st1' ! length st1)) = map is_suspicious (rows (st2' ! length st2))"
proof -
  have flags: "map is_suspicious (rows (enhanced d)) =
      map (\<lambda>(rate, subs). rate \<ge> 99 / 100 \<and> subs < 50)
          (zip (map review_rate (rows d)) (map num_subscribers (rows d)))" for d
    by (simp add: enhanced_def zip_maps o_def)
  have "map is_suspicious (rows (enhanced (st1 ! r1))) = map is_suspicious (rows (enhanced (st2 ! r2)))"
    by (simp only: flags assms(3,4))
  moreover have "enhance_dataframe st1 r1 = Inr (length st1, st1 @ [enhanced (st1 ! r1)])"
    using assms(1) by (rule enhance_dataframe_eq)
  moreover have "enhance_dataframe st2 r2 = Inr (length st2, st2 @ [enhanced (st2 ! r2)])"
    using assms(2) by (rule enhance_dataframe_eq)
  ultimately show ?thesis
    by (intro exI [of _ "st1 @ [enhanced (st1 ! r1)]"] exI [of _ "st2 @ [enhanced (st2 ! r2)]"]) simp
qed

theorem suspicion_flag_depends_on_review_rate_witness:
  "0 < length [small_courses] \<and> 0 < length [small_courses_other] \<and>
   map review_rate (rows ([small_courses] ! 0))
     = map review_rate (rows ([small_courses_other] ! 0)) \<and>
   map num_subscribers (rows ([small_courses] ! 0))
     = map num_subscribers (rows ([small_courses_other] ! 0)) \<and>
   map num_reviews (rows small_courses) = [10, 50] \<and>
   map num_reviews (rows small_courses_other) = [3, 7] \<and>
   map_option (map is_suspicious \<circ> rows) (returned_frame (enhance_dataframe [small_courses] 0))
     = Some [True, False] \<and>
   (\<exists>st1' st2'.
     enhance_dataframe [small_courses] 0 = Inr (1, st1') \<and>
     enhance_dataframe [small_courses_other] 0 = Inr (1, st2') \<and>
     map is_suspicious (rows (st1' ! 1)) = map is_suspicious (rows (st2' ! 1)))"
proof -
  have h1: "0 < length [small_courses]" by simp
  have h2: "0 < length [small_courses_other]" by simp
  have h3: "map review_rate (rows ([small_courses] ! 0))
     = map review_rate (rows ([small_courses_other] ! 0))"
    by (simp add: small_courses_def small_courses_other_def raw_course_def)
  have h4: "map num_subscribers (rows ([small_courses] ! 0))
     = map num_subscribers (rows ([small_courses_other] ! 0))"
    by (simp add: small_courses_def small_courses_other_def raw_course_def)
  have d: "map num_reviews (rows small_courses) = [10, 50]"
    "map num_reviews (rows small_courses_other) = [3, 7]"
    by (simp_all add: small_courses_def small_courses_other_def raw_course_def)
  have v: "map_option (map is_suspicious \<circ> rows)
      (returned_frame (enhance_dataframe [small_courses] 0)) = Some [True, False]"
    by (simp add: enhance_dataframe_eq returned_frame_def enhanced_def small_courses_def
        raw_course_def)
  have l1: "length [small_courses] = 1" by simp
  have l2: "length [small_courses_other] = 1" by simp
  from suspicion_flag_depends_on_review_rate [OF h1 h2 h3 h4]
  have "\<exists>st1' st2'.
     enhance_dataframe [small_courses] 0 = Inr (1, st1') \<and>
     enhance_dataframe [small_courses_other] 0 = Inr (1, st2') \<and>
     map is_suspicious (rows (st1' ! 1)) = map is_suspicious (rows (st2' ! 1))"
    unfolding l1 l2 .
  with h1 h2 h3 h4 d v show ?thesis by blast
qed

theorem suspicion_flag_follows_input_rate:
  "map num_reviews (rows rate_stated_high) = map num_reviews (rows rate_stated_low) \<and>
   map num_subscribers (rows rate_stated_high) = map num_subscribers (rows rate_stated_low) \<and>
   map_option (map is_suspicious \<circ> rows) (returned_frame (enhance_dataframe [rate_stated_high] 0))
     = Some [True] \<and>
   map_option (map is_suspicious \<circ> rows) (returned_frame (enhance_dataframe [rate_stated_low] 0))
     = Some [False] \<and>
   map_option (map engagement_per_subscriber \<circ> rows)
       (returned_frame (enhance_dataframe [rate_stated_high] 0)) = Some [1] \<and>
   map_option (map engagement_per_subscriber \<circ> rows)
       (returned_frame (enhance_dataframe [rate_stated_low] 0)) = Some [1]"
  by (simp add: enhance_dataframe_eq returned_frame_def enhanced_def rate_stated_high_def
      rate_stated_low_def raw_course_def)

section \<open>Frame of enrichment\<close>

text \<open>
  C10. Enrichment leaves its input unchanged. The call succeeds and returns a reference
  to a new object; every object that existed before the call, the input among them,
  holds after the call exactly the frame it held before, rows, columns and values; the
  derived columns are in the new object.
\<close>

theorem enhance_dataframe_leaves_input:
  assumes "r < length st"
  shows "\<exists>st'. enhance_dataframe st r = Inr (length st, st') \<and>
     length st \<noteq> r \<and>
     length st' = Suc (length st) \<and>
     take (length st) st' = st \<and>
     st' ! r = st ! r \<and>
     {BayesianPopularity, ConfidenceLevel, EngagementPerSubscriber, IsSuspicious}
       \<subseteq> columns (st' ! length st)"
proof -
  have "enhance_dataframe st r = Inr (length st, st @ [enhanced (st ! r)])"
    using assms by (rule enhance_dataframe_eq)
  then show ?thesis using assms
    by (intro exI [of _ "st @ [enhanced (st ! r)]"]) (auto simp: enhanced_def nth_append)
qed

theorem enhance_dataframe_leaves_input_witness:
  "0 < length [catalog] \<and>
   (\<exists>st'. enhance_dataframe [catalog] 0 = Inr (1, st') \<and> st' ! 0 = catalog \<and>
      columns (st' ! 0) = {QualityScore} \<and> IsSuspicious \<in> columns (st' ! 1))"
proof -
  have h: "0 < length [catalog]" by simp
  from enhance_dataframe_leaves_input [OF h] obtain st' where
    "enhance_dataframe [catalog] 0 = Inr (length [catalog], st')"
    "st' ! 0 = [catalog] ! 0"
    "{BayesianPopularity, ConfidenceLevel, EngagementPerSubscriber, IsSuspicious}
       \<subseteq> columns (st' ! length [catalog])"
    by blast
  then show ?thesis by (auto simp: catalog_def)
qed

section \<open>Recommendation query\<close>

text \<open>
  C1. The query course is meant to be left out by dropping the first entry of the sorted
  scores. With two courses of equal content every similarity is the same value, the
  stable sort keeps row order, and for a query on the second course the entry dropped is
  the first course: the query course stays in the walk and is returned, as the only
  recommendation.
\<close>

theorem twin_query_returns_query_course:
  "first_index (rows twin_courses) 2 = Some 1 \<and>
   matches_frame twin_sim twin_courses \<and>
   snd (get_recommendations 2 twin_courses twin_sim 5 5) = None \<and>
   map rec_course_id (fst (get_recommendations 2 twin_courses twin_sim 5 5)) = [2]"
  by (simp add: get_recommendations_def get_recommendations_try_def twin_courses_def
      twin_sim_def raw_course_def matches_frame_def enumerate_eq_zip admitted_def
      recommendation_dict_def)

text \<open>
  C2. An identity that no row carries makes the lookup fail; the query then reports the
  error and returns an empty frame. A query on a present identity for which no other
  course passes the filter should return an empty frame and report nothing. It does not
  when an earlier row ties with the query's own entry: for the twin courses, the first
  with too few reviews, a query on the second drops the first course from the walk and
  returns the query course itself, the slip of C1.
\<close>

theorem twin_query_not_empty:
  "first_index (rows twin_low) 2 = Some 1 \<and>
   matches_frame twin_sim twin_low \<and>
   \<not> admitted twin_low 5 (rows twin_low ! 0) \<and>
   snd (get_recommendations 2 twin_low twin_sim 5 5) = None \<and>
   map rec_course_id (fst (get_recommendations 2 twin_low twin_sim 5 5)) = [2] \<and>
   get_recommendations 3 twin_low twin_sim 5 5 = ([], Some NotFound)"
  by (simp add: get_recommendations_def get_recommendations_try_def twin_low_def
      twin_sim_def raw_course_def matches_frame_def enumerate_eq_zip admitted_def
      recommendation_dict_def)

text \<open>
  C6. For a query course present in the frame and \<open>topN\<close> at least 1, the result has at
  most \<open>topN\<close> entries. Its entries are admitted rows in walk order: each carries the
  similarity the matrix gives its row, similarities never increase along the result, and
  of two entries with equal similarity the one from the earlier row comes first.
\<close>

theorem recommendations_bounded_and_ranked:
  assumes "first_index (rows df) cid = Some idx" and "1 \<le> n"
  shows "\<exists>ps. fst (get_recommendations cid df cosine_sim n m) =
                 map (\<lambda>p. recommendation_dict df (rows df ! fst p) (snd p)) ps \<and>
     sorted_wrt ranked ps \<and>
     (\<forall>p\<in>set ps. fst p < length (rows df) \<and> fst p < length (cosine_sim ! idx) \<and>
                  snd p = cosine_sim ! idx ! fst p \<and> admitted df m (rows df ! fst p)) \<and>
     sorted_wrt (\<lambda>a b. similarity_score a \<ge> similarity_score b)
        (fst (get_recommendations cid df cosine_sim n m)) \<and>
     int (length (fst (get_recommendations cid df cosine_sim n m))) \<le> n"
proof -
  let ?walk = "drop 1 (sort_key (\<lambda>x. - snd x) (List.enumerate 0 (cosine_sim ! idx)))"
  let ?F = "\<lambda>p. recommendation_dict df (rows df ! fst p) (snd p)"
  have core: "\<exists>ps. fst (get_recommendations cid df cosine_sim n m) = map ?F ps \<and>
     sorted_wrt ranked ps \<and>
     (\<forall>p\<in>set ps. fst p < length (rows df) \<and> fst p < length (cosine_sim ! idx) \<and>
                  snd p = cosine_sim ! idx ! fst p \<and> admitted df m (rows df ! fst p)) \<and>
     int (length ps) \<le> max n 1"
  proof (cases "get_recommendations_try cid df cosine_sim n m")
    case (Inl e)
    then have "fst (get_recommendations cid df cosine_sim n m) = []"
      by (simp add: get_recommendations_def)
    then show ?thesis by (intro exI [of _ "[]"]) simp
  next
    case (Inr res)
    with assms(1) have loop: "recommend_loop df n m ?walk [] = Inr res"
      by (simp add: get_recommendations_try_def split: if_splits)
    from recommend_loop_shape [OF loop sorted_wrt_ranked_scores] obtain ps where
      ps: "res = map ?F ps" "sorted_wrt ranked ps" "set ps \<subseteq> set ?walk"
        "\<forall>p\<in>set ps. fst p < length (rows df) \<and> admitted df m (rows df ! fst p)"
      by auto
    have "int (length res) \<le> max n 1"
      using loop by (rule recommend_loop_length) simp
    then have len: "int (length ps) \<le> max n 1" by (simp add: ps(1))
    have "fst p < length (cosine_sim ! idx) \<and> snd p = cosine_sim ! idx ! fst p"
      if "p \<in> set ps" for p
      using that ps(3) set_ranked_scores [of p "cosine_sim ! idx"] by auto
    with ps len Inr show ?thesis
      by (intro exI [of _ ps]) (simp add: get_recommendations_def)
  qed
  then obtain ps where ps: "fst (get_recommendations cid df cosine_sim n m) = map ?F ps"
    "sorted_wrt ranked ps"
    "\<forall>p\<in>set ps. fst p < length (rows df) \<and> fst p < length (cosine_sim ! idx) \<and>
                  snd p = cosine_sim ! idx ! fst p \<and> admitted df m (rows df ! fst p)"
    "int (length ps) \<le> max n 1"
    by blast
  have "sorted_wrt (\<lambda>p q. snd p \<ge> snd q) ps"
    using ps(2) by (rule sorted_wrt_mono_rel [rotated]) (auto simp: ranked_def)
  then have desc: "sorted_wrt (\<lambda>a b. similarity_score a \<ge> similarity_score b)
        (fst (get_recommendations cid df cosine_sim n m))"
    by (simp add: ps(1) sorted_wrt_map recommendation_dict_def)
  have "int (length (fst (get_recommendations cid df cosine_sim n m))) \<le> n"
    using ps(4) assms(2) by (auto simp: ps(1))
  with ps desc show ?thesis by blast
qed

theorem recommendations_bounded_and_ranked_witness:
  "first_index (rows shelf) 1 = Some 0 \<and> (1::int) \<le> 3 \<and>
   map rec_course_id (fst (get_recommendations 1 shelf shelf_sim 3 5)) = [3, 2, 4] \<and>
   map similarity_score (fst (get_recommendations 1 shelf shelf_sim 3 5))
     = [4 / 5, 1 / 2, 1 / 2] \<and>
   sorted_wrt (\<lambda>a b. similarity_score a \<ge> similarity_score b)
      (fst (get_recommendations 1 shelf shelf_sim 3 5)) \<and>
   int (length (fst (get_recommendations 1 shelf shelf_sim 3 5))) \<le> 3"
proof -
  have h: "first_index (rows shelf) 1 = Some 0"
    by (simp add: shelf_def raw_course_def)
  have k: "(1::int) \<le> 3" by simp
  have v: "map rec_course_id (fst (get_recommendations 1 shelf shelf_sim 3 5)) = [3, 2, 4]"
    "map similarity_score (fst (get_recommendations 1 shelf shelf_sim 3 5))
       = [4 / 5, 1 / 2, 1 / 2]"
    by (simp_all add: get_recommendations_def get_recommendations_try_def shelf_def
        shelf_sim_def raw_course_def enumerate_eq_zip admitted_def recommendation_dict_def)
  from recommendations_bounded_and_ranked [OF h k, of shelf_sim 5]
  have "sorted_wrt (\<lambda>a b. similarity_score a \<ge> similarity_score b)
          (fst (get_recommendations 1 shelf shelf_sim 3 5)) \<and>
        int (length (fst (get_recommendations 1 shelf shelf_sim 3 5))) \<le> 3"
    by blast
  with h v show ?thesis by simp
qed

section \<open>Similarity index\<close>

text \<open>
  C9. When the vectorizer gives a term-weight matrix for the content strings of the frame,
  the builder succeeds with a square matrix of one row per course that is symmetric. The
  diagonal entry of a course is 1 when its row of term weights has a non-zero weight,
  and 0 when all its weights are zero (a course whose content has no vocabulary term).
\<close>

theorem similarity_symmetric_diagonal:
  assumes "r < length st"
    and "fit_transform (map (\<lambda>row. course_title row @ '' '' @ subject row) (rows (st ! r))) = Inr W"
  shows "\<exists>S st'. build_recommender fit_transform st r = Inr (S, length st, st') \<and>
     length S = length W \<and>
     (\<forall>i < length W. length (S ! i) = length W \<and>
        (\<forall>j < length W. S ! i ! j = S ! j ! i) \<and>
        ((\<exists>w\<in>set (W ! i). w \<noteq> 0) \<longrightarrow> S ! i ! i = 1) \<and>
        ((\<forall>w\<in>set (W ! i). w = 0) \<longrightarrow> S ! i ! i = 0))"
proof -
  let ?S = "cosine_similarity W W"
  have run: "build_recommender fit_transform st r = Inr (?S, length st,
       st @ [setitem_content
               (map (\<lambda>row. course_title row @ '' '' @ subject row) (rows (st ! r))) (st ! r)])"
    using assms by (simp add: build_recommender_eq)
  have len: "length ?S = length W" by (simp add: cosine_similarity_def)
  have row: "length (?S ! i) = length W" if "i < length W" for i
    using that by (simp add: cosine_similarity_def)
  have sym: "?S ! i ! j = ?S ! j ! i" if "i < length W" "j < length W" for i j
    using that by (simp add: cosine_similarity_nth dot_commute)
  have diag: "?S ! i ! i = (if \<forall>w\<in>set (W ! i). w = 0 then 0 else 1)" if "i < length W" for i
    using that by (simp add: cosine_similarity_nth dot_normalize_self)
  show ?thesis
    using run len row sym diag
    by (intro exI [of _ ?S] exI [of _ "st @ [setitem_content
               (map (\<lambda>row. course_title row @ '' '' @ subject row) (rows (st ! r))) (st ! r)]"])
      auto
qed

theorem similarity_symmetric_diagonal_witness:
  "0 < length [stopword_courses] \<and>
   stopword_vectorizer
       (map (\<lambda>row. course_title row @ '' '' @ subject row) (rows ([stopword_courses] ! 0)))
     = Inr [[0], [1]] \<and>
   (\<exists>S st'. build_recommender stopword_vectorizer [stopword_courses] 0 = Inr (S, 1, st') \<and>
      length S = 2 \<and> S ! 0 ! 1 = S ! 1 ! 0 \<and> S ! 1 ! 1 = 1 \<and> S ! 0 ! 0 = 0)"
proof -
  have h1: "0 < length [stopword_courses]" by simp
  have h2: "stopword_vectorizer
       (map (\<lambda>row. course_title row @ '' '' @ subject row) (rows ([stopword_courses] ! 0)))
     = Inr [[0], [1]]"
    by (simp add: stopword_vectorizer_def stopword_courses_def raw_course_def)
  from similarity_symmetric_diagonal
    [where r = 0 and st = "[stopword_courses]" and fit_transform = stopword_vectorizer
       and W = "[[0], [1]]", OF h1 h2]
  obtain S st' where
    run: "build_recommender stopword_vectorizer [stopword_courses] 0
            = Inr (S, length [stopword_courses], st')"
    and len: "length S = length [[0], [1::real]]"
    and all: "\<forall>i < length [[0], [1::real]].
        length (S ! i) = length [[0], [1::real]] \<and>
        (\<forall>j < length [[0], [1::real]]. S ! i ! j = S ! j ! i) \<and>
        ((\<exists>w\<in>set ([[0], [1::real]] ! i). w \<noteq> 0) \<longrightarrow> S ! i ! i = 1) \<and>
        ((\<forall>w\<in>set ([[0], [1::real]] ! i). w = 0) \<longrightarrow> S ! i ! i = 0)"
    by blast
  from all [THEN spec, of 0] have "S ! 0 ! 1 = S ! 1 ! 0" "S ! 0 ! 0 = 0" by simp_all
  moreover from all [THEN spec, of 1] have "S ! 1 ! 1 = 1" by simp
  ultimately show ?thesis using h1 h2 run len by simp
qed

theorem stopword_row_diagonal_zero:
  "stopword_vectorizer [''The And Of'', ''Python The''] = Inr [[0], [1]] \<and>
   returned_matrix (build_recommender stopword_vectorizer [stopword_courses] 0)
     = Some [[0, 0], [0, 1]]"
  by (simp add: build_recommender_eq returned_matrix_def stopword_vectorizer_def
      stopword_courses_def raw_course_def cosine_similarity_def normalize_row_def l2_norm_def
      dot_def)

end
